theory Spec2Isabelle
  imports Main
begin

section \<open>The lock REST client of cmd/lock-rest-client.go\<close>

text \<open>
  The client is one record per peer. Its operations read the clock and call a transport
  collaborator (\<open>rest.Client.Call\<close>); both are outside the file, so every operation
  of the model takes the current time and the collaborator's answer as arguments and
  returns, next to its result, the updated client and the list of transport invocations
  it made. A nil pointer dereference is a value of type \<open>panic\<close>.
\<close>

subsection \<open>Error values\<close>

text \<open>
  Go compares \<open>error\<close> values by identity (\<open>switch err { case errLockConflict: ... }\<close>)
  and reads their message with \<open>Error()\<close>. The model keeps both: the two package
  variables are values of their own, \<open>errors_New s\<close> is the value that
  \<open>errors.New(s)\<close> allocates inside this file (never identical to a value that exists
  elsewhere), and \<open>ErrorValue i s\<close> is any other error value, with identity \<open>i\<close> and
  message \<open>s\<close>.
\<close>

datatype goerror =
    errLockConflict
  | errLockNotExpired
  | errors_New string
  | ErrorValue nat string

text \<open>
  Declarations of package \<open>cmd\<close> that lock-rest-client.go uses and that are declared in
  other files: the message texts of the two package variables, the classifier
  \<open>isNetworkError\<close> and the duration \<open>defaultRetryUnit\<close> (in nanoseconds, as
  \<open>time.Duration\<close> counts). They are parameters of the model.
\<close>

record decls =
  lockConflictText :: string
  lockNotExpiredText :: string
  isNetworkError :: "goerror \<Rightarrow> bool"
  defaultRetryUnit :: int

fun Error :: "decls \<Rightarrow> goerror \<Rightarrow> string" where
  "Error D errLockConflict = lockConflictText D"
| "Error D errLockNotExpired = lockNotExpiredText D"
| "Error D (errors_New s) = s"
| "Error D (ErrorValue i s) = s"

text \<open>\<open>toLockError\<close>: a nil error is \<open>None\<close>; the switch takes the first matching case.\<close>

definition toLockError :: "decls \<Rightarrow> goerror option \<Rightarrow> goerror option" where
  "toLockError D err =
     (case err of
        None \<Rightarrow> None
      | Some e \<Rightarrow>
          if Error D e = Error D errLockConflict then Some errLockConflict
          else if Error D e = Error D errLockNotExpired then Some errLockNotExpired
          else Some e)"

subsection \<open>The client and its health state\<close>

text \<open>
  Of the struct's fields the model keeps the two that the health check reads and writes.
  \<open>timer\<close> is \<open>None\<close> for a nil \<open>*time.Timer\<close> and \<open>Some d\<close> for a timer whose channel
  delivers from time \<open>d\<close> on: \<open>time.NewTimer(x)\<close> at time \<open>now\<close> is \<open>Some (now + x)\<close>.
\<close>

record lockRESTClient =
  connected :: bool
  timer :: "int option"

datatype panic = NilPointerDereference

text \<open>
  \<open>isHostUp\<close> at time \<open>now\<close>. The \<open>select\<close> reads \<open>client.timer.C\<close>, which panics on a
  nil timer; otherwise it receives if the timer has fired and falls to \<open>default\<close> if not.
\<close>

definition isHostUp :: "lockRESTClient \<Rightarrow> int \<Rightarrow> panic + (bool \<times> lockRESTClient)" where
  "isHostUp client now =
     (if connected client then Inr (True, client)
      else
        (case timer client of
           None \<Rightarrow> Inl NilPointerDereference
         | Some d \<Rightarrow>
             if d \<le> now then Inr (True, client\<lparr>connected := True, timer := None\<rparr>)
             else Inr (False, client)))"

definition markHostDown :: "decls \<Rightarrow> lockRESTClient \<Rightarrow> int \<Rightarrow> lockRESTClient" where
  "markHostDown D client now =
     (if \<not> connected client then client
      else client\<lparr>connected := False, timer := Some (now + defaultRetryUnit D * 5)\<rparr>)"

subsection \<open>The transport collaborator\<close>

text \<open>
  \<open>url.Values\<close> is a map from keys to lists of strings; \<open>Set\<close> replaces the list of a key
  by the one value.
\<close>

type_synonym url_Values = "string \<rightharpoonup> string list"

definition values_Set :: "url_Values \<Rightarrow> string \<Rightarrow> string \<Rightarrow> url_Values" where
  "values_Set v k x = v(k \<mapsto> [x])"

text \<open>One invocation of \<open>restClient.Call(method, values, body, length)\<close>.\<close>

record invocation =
  inv_method :: string
  inv_values :: url_Values
  inv_body :: "string option"
  inv_length :: int

text \<open>
  What the collaborator answers when it is invoked: the error it returns (\<open>None\<close> for
  nil) and the time at which it returns. The response body is only drained by the
  client and is left out.
\<close>

record response =
  resp_err :: "goerror option"
  resp_at :: int

text \<open>
  \<open>call\<close>, started at time \<open>now\<close>. The result is the error, the client afterwards and the
  transport invocations made.
\<close>

definition call ::
  "decls \<Rightarrow> lockRESTClient \<Rightarrow> int \<Rightarrow> string \<Rightarrow> url_Values option \<Rightarrow> string option \<Rightarrow> int \<Rightarrow>
     response \<Rightarrow> panic + (goerror option \<times> lockRESTClient \<times> invocation list)" where
  "call D client now method vals body len r =
     (case isHostUp client now of
        Inl p \<Rightarrow> Inl p
      | Inr (up, client1) \<Rightarrow>
          if \<not> up then Inr (Some (errors_New ''Lock rest server node is down''), client1, [])
          else
            let vals1 = (case vals of None \<Rightarrow> Map.empty | Some v \<Rightarrow> v);
                inv = \<lparr>inv_method = method, inv_values = vals1, inv_body = body,
                       inv_length = len\<rparr>
            in (case resp_err r of
                  None \<Rightarrow> Inr (None, client1, [inv])
                | Some e \<Rightarrow>
                    Inr (toLockError D (Some e),
                         (if isNetworkError D e then markHostDown D client1 (resp_at r)
                          else client1),
                         [inv])))"

definition IsOnline :: "lockRESTClient \<Rightarrow> bool" where
  "IsOnline client = connected client"

text \<open>\<open>Close\<close> clears the flag and closes the collaborator; the timer is not touched.\<close>

definition Close :: "lockRESTClient \<Rightarrow> lockRESTClient" where
  "Close client = client\<lparr>connected := False\<rparr>"

subsection \<open>The six operations\<close>

record LockArgs =
  UID :: string
  Source :: string
  Resource :: string
  ServerAddr :: string
  ServiceEndpoint :: string

text \<open>
  Modelled from the spec: the names of the five request fields on the wire. The
  constants \<open>lockRESTUID\<close>, ..., \<open>lockRESTServerEndpoint\<close> are declared in a file of
  package \<open>cmd\<close> that is not among the sources; the spec lists the names as
  requester-id, source, resource, caller-address, caller-service-endpoint.
\<close>

definition lockRESTUID :: string where "lockRESTUID = ''requester-id''"
definition lockRESTSource :: string where "lockRESTSource = ''source''"
definition lockRESTResource :: string where "lockRESTResource = ''resource''"
definition lockRESTServerAddr :: string where "lockRESTServerAddr = ''caller-address''"
definition lockRESTServerEndpoint :: string where
  "lockRESTServerEndpoint = ''caller-service-endpoint''"

text \<open>
  Modelled from the spec: the six remote method names. The constants
  \<open>lockRESTMethodRLock\<close>, ..., \<open>lockRESTMethodExpired\<close> are declared in a file of package
  \<open>cmd\<close> that is not among the sources; the spec lists the names as acquire-shared,
  acquire-exclusive, release-shared, release-exclusive, force-release, check-expired.
\<close>

definition lockRESTMethodRLock :: string where "lockRESTMethodRLock = ''acquire-shared''"
definition lockRESTMethodLock :: string where "lockRESTMethodLock = ''acquire-exclusive''"
definition lockRESTMethodRUnlock :: string where "lockRESTMethodRUnlock = ''release-shared''"
definition lockRESTMethodUnlock :: string where "lockRESTMethodUnlock = ''release-exclusive''"
definition lockRESTMethodForceUnlock :: string where
  "lockRESTMethodForceUnlock = ''force-release''"
definition lockRESTMethodExpired :: string where "lockRESTMethodExpired = ''check-expired''"

text \<open>The form values that \<open>restCall\<close> builds, in the order of its five \<open>Set\<close> calls.\<close>

definition restValues :: "LockArgs \<Rightarrow> url_Values" where
  "restValues args =
     values_Set (values_Set (values_Set (values_Set (values_Set Map.empty
       lockRESTUID (UID args))
       lockRESTSource (Source args))
       lockRESTResource (Resource args))
       lockRESTServerAddr (ServerAddr args))
       lockRESTServerEndpoint (ServiceEndpoint args)"

type_synonym outcome = "bool \<times> goerror option"

type_synonym result = "panic + (outcome \<times> lockRESTClient \<times> invocation list)"

definition restCall ::
  "decls \<Rightarrow> lockRESTClient \<Rightarrow> int \<Rightarrow> string \<Rightarrow> LockArgs \<Rightarrow> response \<Rightarrow> result" where
  "restCall D client now method args r =
     (case call D client now method (Some (restValues args)) None (- 1) r of
        Inl p \<Rightarrow> Inl p
      | Inr (err, client1, invs) \<Rightarrow>
          (case err of
             None \<Rightarrow> Inr ((True, None), client1, invs)
           | Some e \<Rightarrow>
               if e = errLockConflict \<or> e = errLockNotExpired
               then Inr ((False, None), client1, invs)
               else Inr ((False, Some e), client1, invs)))"

definition RLock :: "decls \<Rightarrow> lockRESTClient \<Rightarrow> int \<Rightarrow> LockArgs \<Rightarrow> response \<Rightarrow> result" where
  "RLock D client now args r = restCall D client now lockRESTMethodRLock args r"

definition Lock :: "decls \<Rightarrow> lockRESTClient \<Rightarrow> int \<Rightarrow> LockArgs \<Rightarrow> response \<Rightarrow> result" where
  "Lock D client now args r = restCall D client now lockRESTMethodLock args r"

definition RUnlock :: "decls \<Rightarrow> lockRESTClient \<Rightarrow> int \<Rightarrow> LockArgs \<Rightarrow> response \<Rightarrow> result" where
  "RUnlock D client now args r = restCall D client now lockRESTMethodRUnlock args r"

definition Unlock :: "decls \<Rightarrow> lockRESTClient \<Rightarrow> int \<Rightarrow> LockArgs \<Rightarrow> response \<Rightarrow> result" where
  "Unlock D client now args r = restCall D client now lockRESTMethodUnlock args r"

definition ForceUnlock ::
  "decls \<Rightarrow> lockRESTClient \<Rightarrow> int \<Rightarrow> LockArgs \<Rightarrow> response \<Rightarrow> result" where
  "ForceUnlock D client now args r = restCall D client now lockRESTMethodForceUnlock args r"

definition Expired :: "decls \<Rightarrow> lockRESTClient \<Rightarrow> int \<Rightarrow> LockArgs \<Rightarrow> response \<Rightarrow> result" where
  "Expired D client now args r = restCall D client now lockRESTMethodExpired args r"

text \<open>
  \<open>newlockRESTClient\<close> at time \<open>now\<close>; \<open>newClientErr\<close> is the error that \<open>rest.NewClient\<close>
  returned. It has no error result of its own.
\<close>

definition newlockRESTClient :: "decls \<Rightarrow> goerror option \<Rightarrow> int \<Rightarrow> lockRESTClient" where
  "newlockRESTClient D newClientErr now =
     (if newClientErr \<noteq> None
      then \<lparr>connected = False, timer = Some (now + defaultRetryUnit D * 5)\<rparr>
      else \<lparr>connected = True, timer = None\<rparr>)"

subsection \<open>Callers\<close>

text \<open>
  The six methods of the \<open>dsync.NetLocker\<close> interface by name, so that a statement can
  range over them, and a caller that uses one client for a sequence of calls and closes.
\<close>

datatype operation = OpRLock | OpLock | OpRUnlock | OpUnlock | OpForceUnlock | OpExpired

fun methodName :: "operation \<Rightarrow> string" where
  "methodName OpRLock = lockRESTMethodRLock"
| "methodName OpLock = lockRESTMethodLock"
| "methodName OpRUnlock = lockRESTMethodRUnlock"
| "methodName OpUnlock = lockRESTMethodUnlock"
| "methodName OpForceUnlock = lockRESTMethodForceUnlock"
| "methodName OpExpired = lockRESTMethodExpired"

fun perform ::
  "decls \<Rightarrow> operation \<Rightarrow> lockRESTClient \<Rightarrow> int \<Rightarrow> LockArgs \<Rightarrow> response \<Rightarrow> result" where
  "perform D OpRLock = RLock D"
| "perform D OpLock = Lock D"
| "perform D OpRUnlock = RUnlock D"
| "perform D OpUnlock = Unlock D"
| "perform D OpForceUnlock = ForceUnlock D"
| "perform D OpExpired = Expired D"

datatype event =
    Invoke operation LockArgs int response
  | DoClose

fun run ::
  "decls \<Rightarrow> lockRESTClient \<Rightarrow> event list \<Rightarrow>
     panic + (outcome list \<times> lockRESTClient \<times> invocation list)" where
  "run D client [] = Inr ([], client, [])"
| "run D client (DoClose # es) = run D (Close client) es"
| "run D client (Invoke op args now r # es) =
     (case perform D op client now args r of
        Inl p \<Rightarrow> Inl p
      | Inr (out, client1, invs) \<Rightarrow>
          (case run D client1 es of
             Inl p \<Rightarrow> Inl p
           | Inr (outs, client2, invs2) \<Rightarrow> Inr (out # outs, client2, invs @ invs2)))"

text \<open>The start time of an event, for statements about the order of calls and deadlines.\<close>

fun startedBefore :: "int \<Rightarrow> event \<Rightarrow> bool" where
  "startedBefore d (Invoke op args now r) = (now < d)"
| "startedBefore d DoClose = False"

subsection \<open>Reading a result\<close>

text \<open>Projections of a result: what was returned, the client afterwards, the invocations.\<close>

fun returned :: "panic + ('a \<times> lockRESTClient \<times> invocation list) \<Rightarrow> 'a option" where
  "returned (Inl p) = None"
| "returned (Inr (out, client, invs)) = Some out"

fun clientAfter :: "panic + ('a \<times> lockRESTClient \<times> invocation list) \<Rightarrow> lockRESTClient option" where
  "clientAfter (Inl p) = None"
| "clientAfter (Inr (out, client, invs)) = Some client"

fun invocations :: "panic + ('a \<times> lockRESTClient \<times> invocation list) \<Rightarrow> invocation list option" where
  "invocations (Inl p) = None"
| "invocations (Inr (out, client, invs)) = Some invs"

text \<open>The invocation that \<open>restCall\<close> hands to \<open>call\<close> for an operation.\<close>

definition invocationOf :: "operation \<Rightarrow> LockArgs \<Rightarrow> invocation" where
  "invocationOf op args =
     \<lparr>inv_method = methodName op, inv_values = restValues args, inv_body = None,
      inv_length = - 1\<rparr>"

definition errNodeDown :: goerror where
  "errNodeDown = errors_New ''Lock rest server node is down''"

subsection \<open>Concrete values for examples\<close>

definition errRefused :: goerror where
  "errRefused = ErrorValue 1 ''connection refused''"

definition exampleDecls :: decls where
  "exampleDecls =
     \<lparr>lockConflictText = ''lock conflict'', lockNotExpiredText = ''lock not expired'',
      isNetworkError = (\<lambda>e. e = errRefused), defaultRetryUnit = 1000000000\<rparr>"

definition exampleArgs :: LockArgs where
  "exampleArgs =
     \<lparr>UID = ''u1'', Source = ''main.go:10'', Resource = ''bucket/obj'',
      ServerAddr = ''10.0.0.1:9000'', ServiceEndpoint = ''/minio/lock''\<rparr>"

section \<open>Properties\<close>

subsection \<open>Auxiliary facts\<close>

lemma perform_restCall:
  "perform D op client now args r = restCall D client now (methodName op) args r"
  by (cases op) (simp_all add: RLock_def Lock_def RUnlock_def Unlock_def ForceUnlock_def Expired_def)

lemma toLockError_Some:
  "toLockError D (Some e) =
     (if Error D e = lockConflictText D then Some errLockConflict
      else if Error D e = lockNotExpiredText D then Some errLockNotExpired
      else Some e)"
  by (simp add: toLockError_def)

lemma not_protocol_text:
  "Error D e \<noteq> lockConflictText D \<Longrightarrow> Error D e \<noteq> lockNotExpiredText D \<Longrightarrow>
     e \<noteq> errLockConflict \<and> e \<noteq> errLockNotExpired"
  by auto

lemma isHostUp_passes:
  assumes "connected client \<or> (\<exists>d. timer client = Some d \<and> d \<le> now)"
  shows "\<exists>client1. isHostUp client now = Inr (True, client1) \<and> connected client1"
  using assms by (auto simp add: isHostUp_def)

lemma restCall_short_circuit:
  assumes "\<not> connected client" "timer client = Some d" "now < d"
  shows "restCall D client now m args r = Inr ((False, Some errNodeDown), client, [])"
  using assms by (simp add: restCall_def call_def isHostUp_def errNodeDown_def)

lemma restCall_attempt:
  assumes "isHostUp client now = Inr (True, client1)"
  shows "restCall D client now m args r =
     Inr ((case resp_err r of
             None \<Rightarrow> (True, None)
           | Some e \<Rightarrow>
               if Error D e = lockConflictText D \<or> Error D e = lockNotExpiredText D
               then (False, None) else (False, Some e)),
          (case resp_err r of
             None \<Rightarrow> client1
           | Some e \<Rightarrow> if isNetworkError D e then markHostDown D client1 (resp_at r) else client1),
          [\<lparr>inv_method = m, inv_values = restValues args, inv_body = None, inv_length = - 1\<rparr>])"
proof (cases "resp_err r")
  case None
  with assms show ?thesis by (simp add: restCall_def call_def)
next
  case (Some e)
  with assms show ?thesis
    using not_protocol_text [of D e]
    by (simp add: restCall_def call_def toLockError_Some)
qed

lemma restCall_of_call:
  "call D client now m (Some (restValues args)) None (- 1) r = Inr (err, client1, invs) \<Longrightarrow>
   restCall D client now m args r =
     Inr ((err = None, if err = Some errLockConflict \<or> err = Some errLockNotExpired then None else err),
          client1, invs)"
  by (cases err) (simp_all add: restCall_def)

lemma restCall_at_most_one:
  "restCall D client now m args r = Inr (out, client1, invs) \<Longrightarrow>
     invs = [] \<or> invs = [\<lparr>inv_method = m, inv_values = restValues args, inv_body = None, inv_length = - 1\<rparr>]"
  by (auto simp add: restCall_def call_def Let_def split: sum.splits if_splits option.splits)

lemma markHostDown_connected:
  "connected client \<Longrightarrow>
     markHostDown D client t = \<lparr>connected = False, timer = Some (t + defaultRetryUnit D * 5)\<rparr>"
  by (simp add: markHostDown_def)

lemma markHostDown_down: "\<not> connected client \<Longrightarrow> markHostDown D client t = client"
  by (simp add: markHostDown_def)

lemma run_short_circuited:
  assumes "\<not> connected client" and "timer client = Some d"
  shows "\<forall>ev \<in> set pre. startedBefore d ev \<Longrightarrow>
         run D client (pre @ es) =
           (case run D client es of
              Inl p \<Rightarrow> Inl p
            | Inr (outs, client2, invs) \<Rightarrow>
                Inr (replicate (length pre) (False, Some errNodeDown) @ outs, client2, invs))"
proof (induction pre)
  case Nil
  show ?case by (simp split: sum.splits)
next
  case (Cons ev pre)
  from Cons.prems obtain op args now r where ev: "ev = Invoke op args now r" and t: "now < d"
    by (cases ev) auto
  have "perform D op client now args r = Inr ((False, Some errNodeDown), client, [])"
    using restCall_short_circuit [OF assms t] by (simp add: perform_restCall)
  with Cons ev show ?case
    by (simp split: sum.splits)
qed

lemmas fieldNames =
  lockRESTUID_def lockRESTSource_def lockRESTResource_def lockRESTServerAddr_def
  lockRESTServerEndpoint_def

lemmas methodNames =
  lockRESTMethodRLock_def lockRESTMethodLock_def lockRESTMethodRUnlock_def
  lockRESTMethodUnlock_def lockRESTMethodForceUnlock_def lockRESTMethodExpired_def

lemma restValues_lookup:
  "restValues args lockRESTUID = Some [UID args]"
  "restValues args lockRESTSource = Some [Source args]"
  "restValues args lockRESTResource = Some [Resource args]"
  "restValues args lockRESTServerAddr = Some [ServerAddr args]"
  "restValues args lockRESTServerEndpoint = Some [ServiceEndpoint args]"
  by (simp_all add: restValues_def values_Set_def fieldNames)

lemma restValues_dom:
  "dom (restValues args) =
     {lockRESTUID, lockRESTSource, lockRESTResource, lockRESTServerAddr, lockRESTServerEndpoint}"
  by (auto simp add: restValues_def values_Set_def split: if_splits)

lemma fieldNames_distinct:
  "distinct [lockRESTUID, lockRESTSource, lockRESTResource, lockRESTServerAddr,
             lockRESTServerEndpoint]"
  by (simp add: fieldNames)

lemma methodName_distinct:
  "distinct (map methodName [OpRLock, OpLock, OpRUnlock, OpUnlock, OpForceUnlock, OpExpired])"
  by (simp add: methodNames)

subsection \<open>Outcome of an operation\<close>

text \<open>
  Claim C1. For each of the six operations and every \<open>LockArgs\<close> value, the pair returned
  is decided by the error of the underlying call. Whatever \<open>call\<close> returns, \<open>restCall\<close> maps
  nil to \<open>(true, nil)\<close>, the two package errors to \<open>(false, nil)\<close> and any other error to
  \<open>(false, err)\<close>. When the health check lets the call through, the same holds in terms of
  what the transport answered: no error gives \<open>(true, nil)\<close>, an error whose message is the
  lock-conflict or the lock-not-expired text gives \<open>(false, nil)\<close>, a denial, and any other
  error is returned as it is with \<open>false\<close>.
\<close>

theorem lock_operation_outcome:
  "(\<forall>err client1 invs.
      call D client now (methodName op) (Some (restValues args)) None (- 1) r
        = Inr (err, client1, invs) \<longrightarrow>
      returned (perform D op client now args r) =
        Some (if err = None then (True, None)
              else if err = Some errLockConflict \<or> err = Some errLockNotExpired
              then (False, None) else (False, err)))
   \<and> (\<forall>client1. isHostUp client now = Inr (True, client1) \<longrightarrow>
        (resp_err r = None \<longrightarrow>
           returned (perform D op client now args r) = Some (True, None))
      \<and> (\<forall>e. resp_err r = Some e \<and>
              (Error D e = Error D errLockConflict \<or> Error D e = Error D errLockNotExpired) \<longrightarrow>
           returned (perform D op client now args r) = Some (False, None))
      \<and> (\<forall>e. resp_err r = Some e \<and>
              Error D e \<noteq> Error D errLockConflict \<and> Error D e \<noteq> Error D errLockNotExpired \<longrightarrow>
           returned (perform D op client now args r) = Some (False, Some e)))"
proof (intro conjI allI impI)
  fix err client1 invs
  assume "call D client now (methodName op) (Some (restValues args)) None (- 1) r
            = Inr (err, client1, invs)"
  from restCall_of_call [OF this]
  show "returned (perform D op client now args r) =
        Some (if err = None then (True, None)
              else if err = Some errLockConflict \<or> err = Some errLockNotExpired
              then (False, None) else (False, err))"
    by (simp add: perform_restCall)
next
  fix client1
  assume up: "isHostUp client now = Inr (True, client1)"
  assume "resp_err r = None"
  then show "returned (perform D op client now args r) = Some (True, None)"
    by (simp add: perform_restCall restCall_attempt [OF up])
next
  fix client1 e
  assume up: "isHostUp client now = Inr (True, client1)"
  assume "resp_err r = Some e \<and>
     (Error D e = Error D errLockConflict \<or> Error D e = Error D errLockNotExpired)"
  then show "returned (perform D op client now args r) = Some (False, None)"
    by (auto simp add: perform_restCall restCall_attempt [OF up])
next
  fix client1 e
  assume up: "isHostUp client now = Inr (True, client1)"
  assume "resp_err r = Some e \<and>
     Error D e \<noteq> Error D errLockConflict \<and> Error D e \<noteq> Error D errLockNotExpired"
  then show "returned (perform D op client now args r) = Some (False, Some e)"
    by (simp add: perform_restCall restCall_attempt [OF up])
qed

theorem lock_operation_outcome_witness:
  "isHostUp \<lparr>connected = True, timer = None\<rparr> 0 = Inr (True, \<lparr>connected = True, timer = None\<rparr>)
   \<and> returned (perform exampleDecls OpLock \<lparr>connected = True, timer = None\<rparr> 0 exampleArgs
         \<lparr>resp_err = None, resp_at = 1\<rparr>) = Some (True, None)
   \<and> returned (perform exampleDecls OpForceUnlock \<lparr>connected = True, timer = None\<rparr> 0 exampleArgs
         \<lparr>resp_err = Some (ErrorValue 2 ''lock not expired''), resp_at = 1\<rparr>) = Some (False, None)
   \<and> returned (perform exampleDecls OpRLock \<lparr>connected = True, timer = None\<rparr> 0 exampleArgs
         \<lparr>resp_err = Some (ErrorValue 3 ''disk full''), resp_at = 1\<rparr>)
       = Some (False, Some (ErrorValue 3 ''disk full''))
   \<and> call exampleDecls \<lparr>connected = False, timer = Some 5\<rparr> 0 (methodName OpUnlock)
         (Some (restValues exampleArgs)) None (- 1) \<lparr>resp_err = None, resp_at = 1\<rparr>
       = Inr (Some (errors_New ''Lock rest server node is down''),
              \<lparr>connected = False, timer = Some 5\<rparr>, [])
   \<and> returned (perform exampleDecls OpUnlock \<lparr>connected = False, timer = Some 5\<rparr> 0 exampleArgs
         \<lparr>resp_err = None, resp_at = 1\<rparr>)
       = Some (False, Some (errors_New ''Lock rest server node is down''))"
proof -
  let ?c = "\<lparr>connected = True, timer = None\<rparr>"
  let ?d = "\<lparr>connected = False, timer = Some 5\<rparr>"
  have up: "isHostUp ?c 0 = Inr (True, ?c)"
    by (simp add: isHostUp_def)
  have t2: "Error exampleDecls (ErrorValue 2 ''lock not expired'') = Error exampleDecls errLockNotExpired"
    by (simp add: exampleDecls_def)
  have t3: "Error exampleDecls (ErrorValue 3 ''disk full'') \<noteq> Error exampleDecls errLockConflict
      \<and> Error exampleDecls (ErrorValue 3 ''disk full'') \<noteq> Error exampleDecls errLockNotExpired"
    by (simp add: exampleDecls_def)
  have down: "call exampleDecls ?d 0 (methodName OpUnlock) (Some (restValues exampleArgs)) None
        (- 1) \<lparr>resp_err = None, resp_at = 1\<rparr>
      = Inr (Some (errors_New ''Lock rest server node is down''), ?d, [])"
    by (simp add: call_def isHostUp_def)
  have a: "returned (perform exampleDecls OpLock ?c 0 exampleArgs \<lparr>resp_err = None, resp_at = 1\<rparr>)
      = Some (True, None)"
    using lock_operation_outcome [of exampleDecls ?c 0 OpLock exampleArgs
        "\<lparr>resp_err = None, resp_at = 1\<rparr>"] up
    by simp
  have b: "returned (perform exampleDecls OpForceUnlock ?c 0 exampleArgs
         \<lparr>resp_err = Some (ErrorValue 2 ''lock not expired''), resp_at = 1\<rparr>) = Some (False, None)"
    using lock_operation_outcome [of exampleDecls ?c 0 OpForceUnlock exampleArgs
        "\<lparr>resp_err = Some (ErrorValue 2 ''lock not expired''), resp_at = 1\<rparr>"] up t2
    by simp
  have c: "returned (perform exampleDecls OpRLock ?c 0 exampleArgs
         \<lparr>resp_err = Some (ErrorValue 3 ''disk full''), resp_at = 1\<rparr>)
       = Some (False, Some (ErrorValue 3 ''disk full''))"
    using lock_operation_outcome [of exampleDecls ?c 0 OpRLock exampleArgs
        "\<lparr>resp_err = Some (ErrorValue 3 ''disk full''), resp_at = 1\<rparr>"] up t3
    by simp
  have d: "returned (perform exampleDecls OpUnlock ?d 0 exampleArgs \<lparr>resp_err = None, resp_at = 1\<rparr>)
       = Some (False, Some (errors_New ''Lock rest server node is down''))"
    using lock_operation_outcome [of exampleDecls ?d 0 OpUnlock exampleArgs
        "\<lparr>resp_err = None, resp_at = 1\<rparr>", THEN conjunct1, rule_format, OF down]
    by simp
  from up a b c down d show ?thesis by blast
qed

text \<open>
  Claim C8. \<open>toLockError\<close> maps nil to nil; an error whose message equals the lock-conflict
  text to \<open>errLockConflict\<close>, whichever value carried the text; an error whose message
  equals the lock-not-expired text (and not the lock-conflict text, which the switch tests
  first) to \<open>errLockNotExpired\<close>; and every other error to itself.
\<close>

theorem toLockError_canonical:
  "toLockError D None = None
   \<and> (Error D e = Error D errLockConflict \<longrightarrow> toLockError D (Some e) = Some errLockConflict)
   \<and> (Error D e = Error D errLockNotExpired \<and> Error D e \<noteq> Error D errLockConflict \<longrightarrow>
        toLockError D (Some e) = Some errLockNotExpired)
   \<and> (Error D e \<noteq> Error D errLockConflict \<and> Error D e \<noteq> Error D errLockNotExpired \<longrightarrow>
        toLockError D (Some e) = Some e)"
  by (simp add: toLockError_def)

theorem toLockError_canonical_witness:
  "toLockError exampleDecls (Some (ErrorValue 2 ''lock conflict'')) = Some errLockConflict
   \<and> toLockError exampleDecls (Some (ErrorValue 4 ''lock not expired'')) = Some errLockNotExpired
   \<and> toLockError exampleDecls (Some (ErrorValue 3 ''disk full'')) = Some (ErrorValue 3 ''disk full'')"
proof -
  have a: "Error exampleDecls (ErrorValue 2 ''lock conflict'') = Error exampleDecls errLockConflict"
    by (simp add: exampleDecls_def)
  have b: "Error exampleDecls (ErrorValue 4 ''lock not expired'') = Error exampleDecls errLockNotExpired
      \<and> Error exampleDecls (ErrorValue 4 ''lock not expired'') \<noteq> Error exampleDecls errLockConflict"
    by (simp add: exampleDecls_def)
  have c: "Error exampleDecls (ErrorValue 3 ''disk full'') \<noteq> Error exampleDecls errLockConflict
      \<and> Error exampleDecls (ErrorValue 3 ''disk full'') \<noteq> Error exampleDecls errLockNotExpired"
    by (simp add: exampleDecls_def)
  from a b c
    toLockError_canonical [of exampleDecls "ErrorValue 2 ''lock conflict''"]
    toLockError_canonical [of exampleDecls "ErrorValue 4 ''lock not expired''"]
    toLockError_canonical [of exampleDecls "ErrorValue 3 ''disk full''"]
  show ?thesis by blast
qed

subsection \<open>The circuit breaker\<close>

text \<open>
  Claim C2. An operation on a client that is Down (\<open>connected\<close> false) while its retry
  deadline \<open>d\<close> is still ahead (\<open>now < d\<close>) returns \<open>false\<close> with the error
  "Lock rest server node is down", makes no transport invocation and leaves the client
  as it was.
\<close>

theorem down_short_circuit:
  assumes "\<not> connected client" and "timer client = Some d" and "now < d"
  shows "perform D op client now args r =
           Inr ((False, Some (errors_New ''Lock rest server node is down'')), client, [])"
  using restCall_short_circuit [OF assms] by (simp add: perform_restCall errNodeDown_def)

theorem down_short_circuit_witness:
  "\<not> connected \<lparr>connected = False, timer = Some 5\<rparr>
   \<and> timer \<lparr>connected = False, timer = Some 5\<rparr> = Some 5 \<and> (0::int) < 5
   \<and> perform exampleDecls OpRUnlock \<lparr>connected = False, timer = Some 5\<rparr> 0 exampleArgs
        \<lparr>resp_err = None, resp_at = 1\<rparr>
      = Inr ((False, Some (errors_New ''Lock rest server node is down'')),
             \<lparr>connected = False, timer = Some 5\<rparr>, [])"
  using down_short_circuit [of "\<lparr>connected = False, timer = Some 5\<rparr>" 5 0 exampleDecls OpRUnlock exampleArgs
      "\<lparr>resp_err = None, resp_at = 1\<rparr>"]
  by simp

text \<open>
  Claim C3. Let the transport answer with an error that \<open>isNetworkError\<close> accepts. A client
  that is Up when the transport is called (it was Up before the operation, or the health
  check of the operation has just set it Up because its deadline had elapsed) becomes
  Down with the retry deadline at the time of the failure plus five times
  \<open>defaultRetryUnit\<close>. The operation returns \<open>false\<close>, and it returns the error itself (the
  outcome Failed) when, as for a failure of the network class of the error taxonomy, its
  message is neither of the two protocol texts. On a client that is already Down
  \<open>markHostDown\<close> changes nothing, so a second failure after the first does not move the
  deadline.
\<close>

theorem network_failure_trips:
  assumes "resp_err r = Some e" and "isNetworkError D e"
  shows "(connected client \<or> (\<exists>d. timer client = Some d \<and> d \<le> now) \<longrightarrow>
            perform D op client now args r =
              Inr ((False, if Error D e = lockConflictText D \<or> Error D e = lockNotExpiredText D
                           then None else Some e),
                   \<lparr>connected = False, timer = Some (resp_at r + defaultRetryUnit D * 5)\<rparr>,
                   [invocationOf op args]))
       \<and> ((connected client \<or> (\<exists>d. timer client = Some d \<and> d \<le> now)) \<and>
            Error D e \<noteq> lockConflictText D \<and> Error D e \<noteq> lockNotExpiredText D \<longrightarrow>
            returned (perform D op client now args r) = Some (False, Some e))
       \<and> (\<not> connected client \<longrightarrow> markHostDown D client (resp_at r) = client)
       \<and> markHostDown D (markHostDown D client t) (resp_at r) = markHostDown D client t"
proof (intro conjI impI)
  assume "connected client \<or> (\<exists>d. timer client = Some d \<and> d \<le> now)"
  from isHostUp_passes [OF this] obtain client1 where
    h: "isHostUp client now = Inr (True, client1)" and up: "connected client1"
    by blast
  show "perform D op client now args r =
              Inr ((False, if Error D e = lockConflictText D \<or> Error D e = lockNotExpiredText D
                           then None else Some e),
                   \<lparr>connected = False, timer = Some (resp_at r + defaultRetryUnit D * 5)\<rparr>,
                   [invocationOf op args])"
    using assms up
    by (simp add: perform_restCall restCall_attempt [OF h] markHostDown_connected invocationOf_def)
next
  assume a: "(connected client \<or> (\<exists>d. timer client = Some d \<and> d \<le> now)) \<and>
      Error D e \<noteq> lockConflictText D \<and> Error D e \<noteq> lockNotExpiredText D"
  then have "connected client \<or> (\<exists>d. timer client = Some d \<and> d \<le> now)"
    by blast
  from isHostUp_passes [OF this] obtain client1 where
    h: "isHostUp client now = Inr (True, client1)"
    by blast
  show "returned (perform D op client now args r) = Some (False, Some e)"
    using assms a by (simp add: perform_restCall restCall_attempt [OF h])
next
  assume "\<not> connected client"
  then show "markHostDown D client (resp_at r) = client"
    by (rule markHostDown_down)
next
  show "markHostDown D (markHostDown D client t) (resp_at r) = markHostDown D client t"
    by (simp add: markHostDown_def)
qed

theorem network_failure_trips_witness:
  "resp_err \<lparr>resp_err = Some errRefused, resp_at = 7\<rparr> = Some errRefused
   \<and> isNetworkError exampleDecls errRefused
   \<and> perform exampleDecls OpLock \<lparr>connected = True, timer = None\<rparr> 0 exampleArgs
        \<lparr>resp_err = Some errRefused, resp_at = 7\<rparr>
      = Inr ((False, Some errRefused), \<lparr>connected = False, timer = Some 5000000007\<rparr>,
             [invocationOf OpLock exampleArgs])
   \<and> markHostDown exampleDecls \<lparr>connected = False, timer = Some 12\<rparr> 7
      = \<lparr>connected = False, timer = Some 12\<rparr>"
proof -
  let ?r = "\<lparr>resp_err = Some errRefused, resp_at = 7\<rparr>"
  have n: "isNetworkError exampleDecls errRefused"
    by (simp add: exampleDecls_def)
  have t: "Error exampleDecls errRefused \<noteq> lockConflictText exampleDecls
      \<and> Error exampleDecls errRefused \<noteq> lockNotExpiredText exampleDecls"
    by (simp add: exampleDecls_def errRefused_def)
  have d: "defaultRetryUnit exampleDecls = 1000000000"
    by (simp add: exampleDecls_def)
  have a: "perform exampleDecls OpLock \<lparr>connected = True, timer = None\<rparr> 0 exampleArgs ?r
      = Inr ((False, Some errRefused), \<lparr>connected = False, timer = Some 5000000007\<rparr>,
             [invocationOf OpLock exampleArgs])"
    using network_failure_trips [where r = ?r and e = errRefused and D = exampleDecls
        and client = "\<lparr>connected = True, timer = None\<rparr>" and op = OpLock and now = 0
        and args = exampleArgs] n t d
    by simp
  have b: "markHostDown exampleDecls \<lparr>connected = False, timer = Some 12\<rparr> 7
      = \<lparr>connected = False, timer = Some 12\<rparr>"
    using network_failure_trips [where r = ?r and e = errRefused and D = exampleDecls
        and client = "\<lparr>connected = False, timer = Some 12\<rparr>"] n
    by simp
  from n a b show ?thesis by simp
qed

text \<open>
  Claim C4. Take a client that is Down with retry deadline \<open>d\<close>, any number of calls that
  start before \<open>d\<close>, and then a call that starts at or after \<open>d\<close>. Every earlier call is
  short-circuited, the last call invokes the transport once, and that invocation is the
  only one of the whole sequence, however many calls came before. Unless the transport
  answers with a network error, the last call leaves the client Up with no timer.
\<close>

theorem retry_after_backoff:
  assumes "\<not> connected client" and "timer client = Some d"
    and "\<forall>ev \<in> set pre. startedBefore d ev" and "d \<le> now"
  shows "\<exists>out client1.
           perform D op client now args r = Inr (out, client1, [invocationOf op args]) \<and>
           run D client (pre @ [Invoke op args now r]) =
             Inr (replicate (length pre) (False, Some (errors_New ''Lock rest server node is down''))
                    @ [out],
                  client1, [invocationOf op args]) \<and>
           ((\<forall>e. resp_err r = Some e \<longrightarrow> \<not> isNetworkError D e) \<longrightarrow>
              client1 = \<lparr>connected = True, timer = None\<rparr>)"
proof -
  have h: "isHostUp client now = Inr (True, \<lparr>connected = True, timer = None\<rparr>)"
    using assms(1,2,4) by (simp add: isHostUp_def)
  define client1 where
    "client1 = (case resp_err r of
                  None \<Rightarrow> \<lparr>connected = True, timer = None\<rparr>
                | Some e \<Rightarrow>
                    if isNetworkError D e
                    then markHostDown D \<lparr>connected = True, timer = None\<rparr> (resp_at r)
                    else \<lparr>connected = True, timer = None\<rparr>)"
  obtain out where
    p: "perform D op client now args r = Inr (out, client1, [invocationOf op args])"
    by (simp add: perform_restCall restCall_attempt [OF h] invocationOf_def client1_def)
  have q: "(\<forall>e. resp_err r = Some e \<longrightarrow> \<not> isNetworkError D e) \<longrightarrow>
      client1 = \<lparr>connected = True, timer = None\<rparr>"
    by (cases "resp_err r") (simp_all add: client1_def)
  have "run D client [Invoke op args now r] = Inr ([out], client1, [invocationOf op args])"
    using p by simp
  with run_short_circuited [OF assms(1,2,3), of D "[Invoke op args now r]"]
  have "run D client (pre @ [Invoke op args now r]) =
      Inr (replicate (length pre) (False, Some (errors_New ''Lock rest server node is down''))
             @ [out], client1, [invocationOf op args])"
    by (simp add: errNodeDown_def)
  with p q show ?thesis by blast
qed

theorem retry_after_backoff_witness:
  "run exampleDecls \<lparr>connected = False, timer = Some 5\<rparr>
     ([Invoke OpRLock exampleArgs 1 \<lparr>resp_err = None, resp_at = 2\<rparr>,
       Invoke OpUnlock exampleArgs 3 \<lparr>resp_err = None, resp_at = 4\<rparr>]
      @ [Invoke OpExpired exampleArgs 5 \<lparr>resp_err = None, resp_at = 6\<rparr>])
   = Inr ([(False, Some (errors_New ''Lock rest server node is down'')),
           (False, Some (errors_New ''Lock rest server node is down'')),
           (True, None)],
          \<lparr>connected = True, timer = None\<rparr>,
          [invocationOf OpExpired exampleArgs])"
proof -
  let ?c = "\<lparr>connected = False, timer = Some 5\<rparr>"
  let ?pre = "[Invoke OpRLock exampleArgs 1 \<lparr>resp_err = None, resp_at = 2\<rparr>,
       Invoke OpUnlock exampleArgs 3 \<lparr>resp_err = None, resp_at = 4\<rparr>]"
  let ?r = "\<lparr>resp_err = None, resp_at = 6\<rparr>"
  have pre: "\<forall>ev \<in> set ?pre. startedBefore 5 ev"
    by simp
  have p: "perform exampleDecls OpExpired ?c 5 exampleArgs ?r
      = Inr ((True, None), \<lparr>connected = True, timer = None\<rparr>, [invocationOf OpExpired exampleArgs])"
    by (simp add: Expired_def restCall_def call_def isHostUp_def invocationOf_def)
  from retry_after_backoff [of ?c 5 ?pre 5 exampleDecls OpExpired exampleArgs ?r] pre
  obtain out client1 where
    "perform exampleDecls OpExpired ?c 5 exampleArgs ?r
       = Inr (out, client1, [invocationOf OpExpired exampleArgs])"
    "run exampleDecls ?c (?pre @ [Invoke OpExpired exampleArgs 5 ?r]) =
       Inr (replicate (length ?pre) (False, Some (errors_New ''Lock rest server node is down''))
              @ [out], client1, [invocationOf OpExpired exampleArgs])"
    by auto
  with p show ?thesis
    by (simp add: numeral_2_eq_2)
qed

text \<open>
  Claim C7, as the code has it. When the transport answers with an error that
  \<open>isNetworkError\<close> rejects, the client after the operation is the client as the health
  check of that operation left it. For a client that was Up this is the client before the
  operation; for a client that was Down with an elapsed deadline it is the client set Up
  with the timer cleared.
\<close>

theorem other_error_keeps_health:
  assumes "resp_err r = Some e" and "\<not> isNetworkError D e"
  shows "(connected client \<longrightarrow> clientAfter (perform D op client now args r) = Some client)
       \<and> (\<forall>d. \<not> connected client \<and> timer client = Some d \<and> d \<le> now \<longrightarrow>
            clientAfter (perform D op client now args r)
              = Some \<lparr>connected = True, timer = None\<rparr>)
       \<and> (\<forall>client1. isHostUp client now = Inr (True, client1) \<longrightarrow>
            clientAfter (perform D op client now args r) = Some client1)"
proof (intro conjI impI allI)
  fix client1
  assume h: "isHostUp client now = Inr (True, client1)"
  show "clientAfter (perform D op client now args r) = Some client1"
    using assms by (simp add: perform_restCall restCall_attempt [OF h])
next
  assume "connected client"
  then have h: "isHostUp client now = Inr (True, client)"
    by (simp add: isHostUp_def)
  show "clientAfter (perform D op client now args r) = Some client"
    using assms by (simp add: perform_restCall restCall_attempt [OF h])
next
  fix d
  assume "\<not> connected client \<and> timer client = Some d \<and> d \<le> now"
  then have h: "isHostUp client now = Inr (True, \<lparr>connected = True, timer = None\<rparr>)"
    by (simp add: isHostUp_def)
  show "clientAfter (perform D op client now args r) = Some \<lparr>connected = True, timer = None\<rparr>"
    using assms by (simp add: perform_restCall restCall_attempt [OF h])
qed

theorem other_error_keeps_health_witness:
  "\<not> isNetworkError exampleDecls (ErrorValue 3 ''disk full'')
   \<and> connected \<lparr>connected = True, timer = None\<rparr>
   \<and> clientAfter (perform exampleDecls OpUnlock \<lparr>connected = True, timer = None\<rparr> 0 exampleArgs
        \<lparr>resp_err = Some (ErrorValue 3 ''disk full''), resp_at = 1\<rparr>)
      = Some \<lparr>connected = True, timer = None\<rparr>
   \<and> isHostUp \<lparr>connected = False, timer = Some 5\<rparr> 9 = Inr (True, \<lparr>connected = True, timer = None\<rparr>)
   \<and> clientAfter (perform exampleDecls OpUnlock \<lparr>connected = False, timer = Some 5\<rparr> 9 exampleArgs
        \<lparr>resp_err = Some (ErrorValue 3 ''disk full''), resp_at = 10\<rparr>)
      = Some \<lparr>connected = True, timer = None\<rparr>"
proof -
  let ?e = "ErrorValue 3 ''disk full''"
  have n: "\<not> isNetworkError exampleDecls ?e"
    by (simp add: exampleDecls_def errRefused_def)
  have h: "isHostUp \<lparr>connected = False, timer = Some 5\<rparr> 9
      = Inr (True, \<lparr>connected = True, timer = None\<rparr>)"
    by (simp add: isHostUp_def)
  have a: "clientAfter (perform exampleDecls OpUnlock \<lparr>connected = True, timer = None\<rparr> 0
        exampleArgs \<lparr>resp_err = Some ?e, resp_at = 1\<rparr>) = Some \<lparr>connected = True, timer = None\<rparr>"
    using other_error_keeps_health [of "\<lparr>resp_err = Some ?e, resp_at = 1\<rparr>" ?e exampleDecls
        "\<lparr>connected = True, timer = None\<rparr>" OpUnlock 0 exampleArgs] n
    by simp
  have b: "clientAfter (perform exampleDecls OpUnlock \<lparr>connected = False, timer = Some 5\<rparr> 9
        exampleArgs \<lparr>resp_err = Some ?e, resp_at = 10\<rparr>) = Some \<lparr>connected = True, timer = None\<rparr>"
    using other_error_keeps_health [of "\<lparr>resp_err = Some ?e, resp_at = 10\<rparr>" ?e exampleDecls
        "\<lparr>connected = False, timer = Some 5\<rparr>" OpUnlock 9 exampleArgs] n h
    by simp
  from n h a b show ?thesis by simp
qed

text \<open>
  Claim C7 as stated compares the health state after the operation with the one before
  it. A client that is Down with deadline 5 receives a \<open>Lock\<close> at time 5; the transport
  answers with a lock-conflict text, which is not a network error; the operation returns
  a denial and the client is Up with no timer, which is not the state it started in.
\<close>

theorem other_error_health_changed:
  "resp_err \<lparr>resp_err = Some (ErrorValue 2 ''lock conflict''), resp_at = 6\<rparr>
      = Some (ErrorValue 2 ''lock conflict'')
   \<and> \<not> isNetworkError exampleDecls (ErrorValue 2 ''lock conflict'')
   \<and> returned (Lock exampleDecls \<lparr>connected = False, timer = Some 5\<rparr> 5 exampleArgs
         \<lparr>resp_err = Some (ErrorValue 2 ''lock conflict''), resp_at = 6\<rparr>) = Some (False, None)
   \<and> clientAfter (Lock exampleDecls \<lparr>connected = False, timer = Some 5\<rparr> 5 exampleArgs
         \<lparr>resp_err = Some (ErrorValue 2 ''lock conflict''), resp_at = 6\<rparr>)
       = Some \<lparr>connected = True, timer = None\<rparr>
   \<and> \<lparr>connected = True, timer = None\<rparr> \<noteq> \<lparr>connected = False, timer = Some 5\<rparr>"
  by (simp add: exampleDecls_def errRefused_def Lock_def restCall_def call_def isHostUp_def
      toLockError_def)

subsection \<open>Construction and closing\<close>

text \<open>
  Claim C5, as the code has it. When \<open>rest.NewClient\<close> returns an error, construction
  still returns a client; the client is Down and its retry deadline is the construction
  time plus five times \<open>defaultRetryUnit\<close>, the same backoff window as after a network
  failure. Operations before that deadline are short-circuited; the first one at or after
  it invokes the transport.
\<close>

theorem construction_failure_down:
  "newlockRESTClient D (Some e) t0 =
     \<lparr>connected = False, timer = Some (t0 + defaultRetryUnit D * 5)\<rparr>
   \<and> \<not> IsOnline (newlockRESTClient D (Some e) t0)
   \<and> (now < t0 + defaultRetryUnit D * 5 \<longrightarrow>
        perform D op (newlockRESTClient D (Some e) t0) now args r =
          Inr ((False, Some (errors_New ''Lock rest server node is down'')),
               newlockRESTClient D (Some e) t0, []))
   \<and> (t0 + defaultRetryUnit D * 5 \<le> now \<longrightarrow>
        invocations (perform D op (newlockRESTClient D (Some e) t0) now args r) =
          Some [invocationOf op args])"
proof (intro conjI impI)
  show c: "newlockRESTClient D (Some e) t0 =
     \<lparr>connected = False, timer = Some (t0 + defaultRetryUnit D * 5)\<rparr>"
    by (simp add: newlockRESTClient_def)
  show "\<not> IsOnline (newlockRESTClient D (Some e) t0)"
    by (simp add: c IsOnline_def)
next
  assume "now < t0 + defaultRetryUnit D * 5"
  then show "perform D op (newlockRESTClient D (Some e) t0) now args r =
          Inr ((False, Some (errors_New ''Lock rest server node is down'')),
               newlockRESTClient D (Some e) t0, [])"
    using restCall_short_circuit [of "newlockRESTClient D (Some e) t0"
        "t0 + defaultRetryUnit D * 5" now D "methodName op" args r]
    by (simp add: perform_restCall newlockRESTClient_def errNodeDown_def)
next
  assume "t0 + defaultRetryUnit D * 5 \<le> now"
  then have "isHostUp (newlockRESTClient D (Some e) t0) now =
      Inr (True, \<lparr>connected = True, timer = None\<rparr>)"
    by (simp add: isHostUp_def newlockRESTClient_def)
  from restCall_attempt [OF this]
  show "invocations (perform D op (newlockRESTClient D (Some e) t0) now args r) =
          Some [invocationOf op args]"
    by (simp add: perform_restCall invocationOf_def)
qed

theorem construction_failure_down_witness:
  "newlockRESTClient exampleDecls (Some (ErrorValue 0 ''no such host'')) 0
      = \<lparr>connected = False, timer = Some 5000000000\<rparr>
   \<and> (1::int) < 0 + defaultRetryUnit exampleDecls * 5
   \<and> perform exampleDecls OpLock
        (newlockRESTClient exampleDecls (Some (ErrorValue 0 ''no such host'')) 0) 1 exampleArgs
        \<lparr>resp_err = None, resp_at = 2\<rparr>
      = Inr ((False, Some (errors_New ''Lock rest server node is down'')),
             newlockRESTClient exampleDecls (Some (ErrorValue 0 ''no such host'')) 0, [])
   \<and> 0 + defaultRetryUnit exampleDecls * 5 \<le> (5000000000::int)
   \<and> invocations (perform exampleDecls OpLock
        (newlockRESTClient exampleDecls (Some (ErrorValue 0 ''no such host'')) 0) 5000000000
        exampleArgs \<lparr>resp_err = None, resp_at = 5000000001\<rparr>)
      = Some [invocationOf OpLock exampleArgs]"
proof -
  let ?e = "ErrorValue 0 ''no such host''"
  have d: "defaultRetryUnit exampleDecls = 1000000000"
    by (simp add: exampleDecls_def)
  have lt: "(1::int) < 0 + defaultRetryUnit exampleDecls * 5"
    and le: "0 + defaultRetryUnit exampleDecls * 5 \<le> (5000000000::int)"
    by (simp_all add: d)
  have c: "newlockRESTClient exampleDecls (Some ?e) 0 = \<lparr>connected = False, timer = Some 5000000000\<rparr>"
    by (simp add: newlockRESTClient_def d)
  have a: "perform exampleDecls OpLock (newlockRESTClient exampleDecls (Some ?e) 0) 1 exampleArgs
        \<lparr>resp_err = None, resp_at = 2\<rparr>
      = Inr ((False, Some (errors_New ''Lock rest server node is down'')),
             newlockRESTClient exampleDecls (Some ?e) 0, [])"
    using construction_failure_down [of exampleDecls ?e 0 1 OpLock exampleArgs "\<lparr>resp_err = None, resp_at = 2\<rparr>"] lt
    by blast
  have b: "invocations (perform exampleDecls OpLock (newlockRESTClient exampleDecls (Some ?e) 0)
        5000000000 exampleArgs \<lparr>resp_err = None, resp_at = 5000000001\<rparr>)
      = Some [invocationOf OpLock exampleArgs]"
    using construction_failure_down [of exampleDecls ?e 0 5000000000 OpLock exampleArgs
        "\<lparr>resp_err = None, resp_at = 5000000001\<rparr>"] le
    by blast
  from c lt a le b show ?thesis by blast
qed

text \<open>
  Claim C5 as stated speaks of an immediate retry deadline. With a retry unit of one
  second, a client whose transport could not be built at time 0 has its deadline five
  seconds later, and a \<open>Lock\<close> one nanosecond before it is still refused without a
  transport invocation.
\<close>

theorem construction_failure_not_immediate:
  "timer (newlockRESTClient exampleDecls (Some (ErrorValue 0 ''no such host'')) 0)
      = Some 5000000000
   \<and> (5000000000::int) \<noteq> 0
   \<and> Lock exampleDecls
        (newlockRESTClient exampleDecls (Some (ErrorValue 0 ''no such host'')) 0) 4999999999
        exampleArgs \<lparr>resp_err = None, resp_at = 5000000000\<rparr>
      = Inr ((False, Some (errors_New ''Lock rest server node is down'')),
             \<lparr>connected = False, timer = Some 5000000000\<rparr>, [])"
  by (simp add: newlockRESTClient_def exampleDecls_def Lock_def restCall_def call_def
      isHostUp_def)

text \<open>
  Claim C6 does not hold of the code. \<open>Close\<close> clears \<open>connected\<close> and leaves the timer. A
  client built at time 0 meets a network failure that returns at time 1 and goes Down
  until five seconds later; it is closed; a \<open>Lock\<close> after the deadline passes the health
  check, which sets \<open>connected\<close> again, and the transport is invoked a second time.
\<close>

theorem close_then_reopens:
  "run exampleDecls (newlockRESTClient exampleDecls None 0)
     [Invoke OpLock exampleArgs 0 \<lparr>resp_err = Some errRefused, resp_at = 1\<rparr>,
      DoClose,
      Invoke OpLock exampleArgs 5000000001 \<lparr>resp_err = None, resp_at = 5000000002\<rparr>]
   = Inr ([(False, Some errRefused), (True, None)],
          \<lparr>connected = True, timer = None\<rparr>,
          [invocationOf OpLock exampleArgs, invocationOf OpLock exampleArgs])"
  by (simp add: newlockRESTClient_def exampleDecls_def errRefused_def Lock_def restCall_def
      call_def isHostUp_def markHostDown_def toLockError_def Close_def invocationOf_def)

text \<open>
  Claim C10. The health check of a client that is Down with a nil timer panics with a nil
  pointer dereference at every time. A client constructed without error and then closed
  is in that state, so its health check and each of its six operations panic.
\<close>

theorem isHostUp_nil_timer_panics:
  "isHostUp \<lparr>connected = False, timer = None\<rparr> now = Inl NilPointerDereference
   \<and> Close (newlockRESTClient D None t0) = \<lparr>connected = False, timer = None\<rparr>
   \<and> isHostUp (Close (newlockRESTClient D None t0)) now = Inl NilPointerDereference
   \<and> perform D op (Close (newlockRESTClient D None t0)) now args r = Inl NilPointerDereference"
  by (simp add: perform_restCall restCall_def call_def isHostUp_def Close_def
      newlockRESTClient_def)

subsection \<open>What goes to the transport\<close>

text \<open>
  Claim C9, as the code has it. An operation whose health check passes makes exactly one
  transport invocation: its method is the operation's method name, its values are the
  form built from the request, with no body and length -1. An operation never makes more
  than one invocation, and none when it is short-circuited. The form has exactly the five
  field names as keys, the names are distinct, and each key carries the one string of its
  request field. The six method names are distinct.
\<close>

theorem one_invocation_five_fields:
  "(\<forall>client1. isHostUp client now = Inr (True, client1) \<longrightarrow>
      invocations (perform D op client now args r) =
        Some [\<lparr>inv_method = methodName op, inv_values = restValues args, inv_body = None,
               inv_length = - 1\<rparr>])
   \<and> (\<forall>invs. invocations (perform D op client now args r) = Some invs \<longrightarrow>
        invs = [] \<or> invs = [invocationOf op args])
   \<and> dom (restValues args) =
       {lockRESTUID, lockRESTSource, lockRESTResource, lockRESTServerAddr, lockRESTServerEndpoint}
   \<and> distinct [lockRESTUID, lockRESTSource, lockRESTResource, lockRESTServerAddr,
                lockRESTServerEndpoint]
   \<and> restValues args lockRESTUID = Some [UID args]
   \<and> restValues args lockRESTSource = Some [Source args]
   \<and> restValues args lockRESTResource = Some [Resource args]
   \<and> restValues args lockRESTServerAddr = Some [ServerAddr args]
   \<and> restValues args lockRESTServerEndpoint = Some [ServiceEndpoint args]
   \<and> distinct (map methodName [OpRLock, OpLock, OpRUnlock, OpUnlock, OpForceUnlock, OpExpired])"
proof (intro conjI allI impI)
  fix client1
  assume h: "isHostUp client now = Inr (True, client1)"
  show "invocations (perform D op client now args r) =
        Some [\<lparr>inv_method = methodName op, inv_values = restValues args, inv_body = None,
               inv_length = - 1\<rparr>]"
    by (simp add: perform_restCall restCall_attempt [OF h])
next
  fix invs
  assume "invocations (perform D op client now args r) = Some invs"
  then obtain out client1 where "restCall D client now (methodName op) args r = Inr (out, client1, invs)"
    by (cases "restCall D client now (methodName op) args r") (auto simp add: perform_restCall)
  from restCall_at_most_one [OF this]
  show "invs = [] \<or> invs = [invocationOf op args]"
    by (simp add: invocationOf_def)
qed (simp_all only: restValues_lookup restValues_dom fieldNames_distinct methodName_distinct)

theorem one_invocation_five_fields_witness:
  "isHostUp \<lparr>connected = True, timer = None\<rparr> 0 = Inr (True, \<lparr>connected = True, timer = None\<rparr>)
   \<and> invocations (perform exampleDecls OpExpired \<lparr>connected = True, timer = None\<rparr> 0 exampleArgs
        \<lparr>resp_err = None, resp_at = 1\<rparr>)
      = Some [\<lparr>inv_method = ''check-expired'', inv_values = restValues exampleArgs,
               inv_body = None, inv_length = - 1\<rparr>]
   \<and> restValues exampleArgs ''resource'' = Some [''bucket/obj'']"
proof -
  let ?c = "\<lparr>connected = True, timer = None\<rparr>"
  have up: "isHostUp ?c 0 = Inr (True, ?c)"
    by (simp add: isHostUp_def)
  note T = one_invocation_five_fields [of ?c 0 exampleDecls OpExpired exampleArgs "\<lparr>resp_err = None, resp_at = 1\<rparr>"]
  have a: "invocations (perform exampleDecls OpExpired ?c 0 exampleArgs \<lparr>resp_err = None, resp_at = 1\<rparr>)
      = Some [\<lparr>inv_method = methodName OpExpired, inv_values = restValues exampleArgs,
               inv_body = None, inv_length = - 1\<rparr>]"
    using T up by blast
  have b: "restValues exampleArgs lockRESTResource = Some [Resource exampleArgs]"
    using T by blast
  from up a b show ?thesis
    by (simp add: lockRESTMethodExpired_def lockRESTResource_def exampleArgs_def)
qed

text \<open>
  Claim C9 as stated has every operation make exactly one transport invocation. An
  \<open>RLock\<close> at time 0 on a client that is Down until time 5 makes none.
\<close>

theorem down_makes_no_invocation:
  "invocations (RLock exampleDecls \<lparr>connected = False, timer = Some 5\<rparr> 0 exampleArgs
       \<lparr>resp_err = None, resp_at = 1\<rparr>) = Some []
   \<and> length ([] :: invocation list) \<noteq> 1"
  by (simp add: RLock_def restCall_def call_def isHostUp_def)

end
